theory Spec2Isabelle
  imports Main
begin

section \<open>JavaScript values\<close>

text \<open>
  The values that flow through \<^verbatim>\<open>src/plugin.js\<close>: proxy URLs, option flags and
  priorities are ordinary JavaScript values, and the code tests them for truthiness
  (\<^verbatim>\<open>||\<close>, \<^verbatim>\<open>!\<close>, \<^verbatim>\<open>? :\<close>), so the embedding keeps the dynamic type.
  Numbers are integers (a resolution priority is one; \<^verbatim>\<open>NaN\<close> and fractions are
  left out); an object is a map from property names to values.
\<close>

datatype jsval =
    JUndefined
  | JNull
  | JBool bool
  | JNum int
  | JStr string
  | JObj "string \<Rightarrow> jsval option"

type_synonym obj = "string \<Rightarrow> jsval option"

text \<open>ToBoolean: \<^verbatim>\<open>undefined\<close>, \<^verbatim>\<open>null\<close>, \<^verbatim>\<open>false\<close>, \<^verbatim>\<open>0\<close> and \<^verbatim>\<open>''\<close> are falsy.\<close>

fun truthy :: "jsval \<Rightarrow> bool" where
  "truthy JUndefined = False"
| "truthy JNull = False"
| "truthy (JBool b) = b"
| "truthy (JNum n) = (n \<noteq> 0)"
| "truthy (JStr s) = (s \<noteq> [])"
| "truthy (JObj m) = True"

text \<open>\<^verbatim>\<open>a || b\<close>: the left operand when it is truthy, the right one otherwise.\<close>

definition js_or :: "jsval \<Rightarrow> jsval \<Rightarrow> jsval" where
  "js_or a b = (if truthy a then a else b)"

text \<open>Property read \<^verbatim>\<open>o.k\<close>: a missing property reads as \<^verbatim>\<open>undefined\<close>.\<close>

definition getProp :: "obj \<Rightarrow> string \<Rightarrow> jsval" where
  "getProp m k = (case m k of None \<Rightarrow> JUndefined | Some v \<Rightarrow> v)"

text \<open>
  Object spread \<^verbatim>\<open>{ ...v }\<close> of a value that is not a string: the own properties of
  an object, nothing for \<^verbatim>\<open>undefined\<close>, \<^verbatim>\<open>null\<close>, booleans and numbers. (The
  constructor spreads its first argument only when \<^verbatim>\<open>typeof\<close> is not
  \<^verbatim>\<open>'string'\<close>.)
\<close>

fun spread :: "jsval \<Rightarrow> obj" where
  "spread (JObj m) = m"
| "spread v = Map.empty"

text \<open>
  An options parameter with the default \<^verbatim>\<open>opts = {}\<close>: \<open>None\<close> is the omitted
  (or \<^verbatim>\<open>undefined\<close>) argument, \<open>Some m\<close> an options object, as the type
  declarations have it (\<^verbatim>\<open>opts?: Partial<PuppeteerPageProxyOptions>\<close>).
\<close>

definition optsArg :: "obj option \<Rightarrow> obj" where
  "optsArg a = (case a of None \<Rightarrow> Map.empty | Some m \<Rightarrow> m)"

datatype js_error =
    ReferenceError string
  | TypeError string
  | Rejected string

section \<open>The plugin object\<close>

type_synonym page = nat

record plugin =
  opts :: obj
  proxyCfgMap :: "page \<Rightarrow> obj option"
  reqHdlRegSet :: "page set"

text \<open>\<^verbatim>\<open>get defaults()\<close>: the three options, all \<^verbatim>\<open>undefined\<close>.\<close>

definition defaults :: obj where
  "defaults = [''proxyUrl'' \<mapsto> JUndefined,
               ''interceptResolutionPriority'' \<mapsto> JUndefined,
               ''onlyNavigation'' \<mapsto> JUndefined]"

text \<open>
  The base class \<^verbatim>\<open>PuppeteerExtraPlugin\<close> is an external library: its constructor
  stores \<^verbatim>\<open>merge(this.defaults, opts)\<close>, the merge of the \<^verbatim>\<open>merge-deep\<close> package.
  That merge copies every own property of the given object over the target's property
  of the same name, except that it skips the keys \<^verbatim>\<open>__proto__\<close>, \<^verbatim>\<open>constructor\<close>
  and \<^verbatim>\<open>prototype\<close> (its \<^verbatim>\<open>isValidKey\<close>), which keep the target's value. The
  target here is \<^verbatim>\<open>defaults\<close>, whose values are all \<^verbatim>\<open>undefined\<close>, so no property
  is merged recursively.
\<close>

definition isValidKey :: "string \<Rightarrow> bool" where
  "isValidKey key =
     (key \<noteq> ''__proto__'' \<and> key \<noteq> ''constructor'' \<and> key \<noteq> ''prototype'')"

definition merge :: "obj \<Rightarrow> obj \<Rightarrow> obj" where
  "merge target given =
     (\<lambda>key. if isValidKey key
            then (case given key of Some v \<Rightarrow> Some v | None \<Rightarrow> target key)
            else target key)"

text \<open>
  The constructor, lines 46 to 51: \<^verbatim>\<open>super\<close> gets \<^verbatim>\<open>{ ...opts, proxyUrl }\<close> when
  the first argument is a string and \<^verbatim>\<open>{ ...proxyUrl }\<close> otherwise.
\<close>

definition PuppeteerPageProxyPlugin :: "jsval \<Rightarrow> obj option \<Rightarrow> plugin" where
  "PuppeteerPageProxyPlugin proxyUrl' opts' =
     \<lparr> opts = merge defaults
                (case proxyUrl' of
                   JStr s \<Rightarrow> (optsArg opts')(''proxyUrl'' \<mapsto> proxyUrl')
                 | _ \<Rightarrow> spread proxyUrl'),
       proxyCfgMap = Map.empty,
       reqHdlRegSet = {} \<rparr>"

definition proxyUrl :: "plugin \<Rightarrow> jsval" where
  "proxyUrl this = getProp (opts this) ''proxyUrl''"

definition onlyNavigation :: "plugin \<Rightarrow> jsval" where
  "onlyNavigation this = getProp (opts this) ''onlyNavigation''"

definition interceptResolutionPriority :: "plugin \<Rightarrow> jsval" where
  "interceptResolutionPriority this = getProp (opts this) ''interceptResolutionPriority''"

section \<open>The request handler\<close>

text \<open>
  The host's request object, as far as \<^verbatim>\<open>onRequest\<close> reads it. The two
  cooperative-mode methods exist or not depending on the host's version: \<open>None\<close> is
  a request object without the method, \<open>Some r\<close> one whose method returns \<open>r\<close>.
\<close>

record request =
  url :: string
  isInterceptResolutionHandled :: "bool option"
  isNavigationRequest :: bool
  continueRequestOverrides :: "jsval option"

text \<open>
  What \<^verbatim>\<open>onRequest\<close> does to the outside, in order: the call of the dispatcher
  \<^verbatim>\<open>getProxiedResponse(request, proxyUrl)\<close> and the three terminal actions of the
  request object, \<^verbatim>\<open>respond(response, priority)\<close>, \<^verbatim>\<open>abort(reason, priority)\<close>
  and \<^verbatim>\<open>continue(...continueArgs)\<close> (\<open>None\<close> for the empty argument list).
  The output of \<^verbatim>\<open>this.debug\<close> is not recorded.
\<close>

datatype event =
    GetProxiedResponse request jsval
  | Respond jsval jsval
  | Abort string jsval
  | Continue "(jsval \<times> jsval) option"

text \<open>An async function ends with a fulfilled promise or a rejected one.\<close>

datatype completion = Returned | Threw js_error

text \<open>
  \<^verbatim>\<open>onRequest(page, request)\<close>, lines 103 to 157. Two things come from outside
  the file and are parameters: the global scope \<open>genv\<close>, in which the identifiers
  \<^verbatim>\<open>type\<close> and \<^verbatim>\<open>shouldBlock\<close> of the debug call are looked up (the module
  declares neither, and reading an unbound identifier throws a ReferenceError before
  \<^verbatim>\<open>this.debug\<close> is called), and the dispatcher \<open>gpr\<close> of \<^verbatim>\<open>./core/proxy\<close>,
  which resolves to a response (\<open>Inr\<close>) or rejects (\<open>Inl\<close>). Destructuring the
  result of \<^verbatim>\<open>this.proxyCfgMap.get(page)\<close> throws a TypeError when the page has no
  entry. The \<^verbatim>\<open>do { ... } while (false)\<close> block runs once; each \<^verbatim>\<open>break\<close> leads
  to the \<^verbatim>\<open>continue\<close> call after it, here \<open>fallthrough\<close>. The host's own methods
  (\<^verbatim>\<open>respond\<close>, \<^verbatim>\<open>abort\<close>, \<^verbatim>\<open>continue\<close>, the two queries) are taken to
  complete normally.
\<close>

definition onRequest ::
  "obj \<Rightarrow> (request \<Rightarrow> jsval \<Rightarrow> js_error + jsval) \<Rightarrow> plugin \<Rightarrow> page \<Rightarrow> request
     \<Rightarrow> event list \<times> completion" where
  "onRequest genv gpr this page request =
    (let alreadyHandled =
           (case isInterceptResolutionHandled request of Some r \<Rightarrow> r | None \<Rightarrow> True)
     in
     case genv ''type'' of
       None \<Rightarrow> ([], Threw (ReferenceError ''type''))
     | Some type' \<Rightarrow>
     case genv ''shouldBlock'' of
       None \<Rightarrow> ([], Threw (ReferenceError ''shouldBlock''))
     | Some shouldBlock' \<Rightarrow>
     if alreadyHandled then ([], Returned)
     else
     case proxyCfgMap this page of
       None \<Rightarrow> ([], Threw (TypeError ''proxyCfgMap.get(page) is undefined''))
     | Some cfg \<Rightarrow>
    (let localProxyUrl = getProp cfg ''proxy'';
         localOnlyNavigation = getProp cfg ''onlyNavigation'';
         localInterceptResolutionPriority = getProp cfg ''interceptResolutionPriority'';
         priority = js_or localInterceptResolutionPriority (interceptResolutionPriority this);
         onlyNav = js_or localOnlyNavigation (onlyNavigation this);
         continueArgs =
           (case continueRequestOverrides request of
              Some overrides \<Rightarrow> Some (overrides, priority)
            | None \<Rightarrow> None);
         fallthrough = ([Continue continueArgs], Returned)
     in
     if \<not> truthy localProxyUrl \<and> localProxyUrl \<noteq> JUndefined then fallthrough
     else
       (let proxyUrl' = js_or localProxyUrl (proxyUrl this)
        in
        if \<not> truthy proxyUrl' then fallthrough
        else if truthy onlyNav \<and> \<not> isNavigationRequest request then fallthrough
        else
          (case gpr request proxyUrl' of
             Inr respondWith \<Rightarrow>
               ([GetProxiedResponse request proxyUrl', Respond respondWith priority], Returned)
           | Inl err \<Rightarrow>
               ([GetProxiedResponse request proxyUrl', Abort ''failed'' priority], Returned)))))"

text \<open>The terminal actions among the events, and the dispatcher calls.\<close>

fun is_terminal :: "event \<Rightarrow> bool" where
  "is_terminal (GetProxiedResponse r u) = False"
| "is_terminal (Respond r p) = True"
| "is_terminal (Abort r p) = True"
| "is_terminal (Continue a) = True"

definition terminal_actions :: "event list \<Rightarrow> event list" where
  "terminal_actions tr = filter is_terminal tr"

definition dispatcher_calls :: "event list \<Rightarrow> event list" where
  "dispatcher_calls tr = filter (\<lambda>e. \<not> is_terminal e) tr"


text \<open>The priority an event hands to the host, when it hands one.\<close>

fun priority_of :: "event \<Rightarrow> jsval option" where
  "priority_of (GetProxiedResponse r u) = None"
| "priority_of (Respond r p) = Some p"
| "priority_of (Abort r p) = Some p"
| "priority_of (Continue a) = map_option snd a"

section \<open>Enabling the proxy on a page\<close>

text \<open>
  The host's side of a page, as far as the plugin touches it: the listeners attached to
  the page's \<^verbatim>\<open>'request'\<close> event by \<^verbatim>\<open>page.on\<close>, in order, and the flag set by
  \<^verbatim>\<open>page.setRequestInterception\<close>. The only listener this file attaches is
  \<^verbatim>\<open>this.onRequest.bind(this, page)\<close>.
\<close>

datatype listener = OnRequestBound page

record host =
  requestListeners :: "page \<Rightarrow> listener list"
  requestInterception :: "page \<Rightarrow> bool"

text \<open>
  \<^verbatim>\<open>page.useProxy = (proxyUrl, opts = {}) => ...\<close>, lines 166 to 177, on the pair of
  the plugin's state and the host's. The body has no check of \<^verbatim>\<open>proxyUrl\<close> and no
  \<^verbatim>\<open>throw\<close>: the model is a total function with no error result.
\<close>

definition useProxy :: "plugin \<times> host \<Rightarrow> page \<Rightarrow> jsval \<Rightarrow> obj option \<Rightarrow> plugin \<times> host" where
  "useProxy s page proxyUrl' opts' =
    (let this = fst s;
         h = snd s;
         this1 = this\<lparr>proxyCfgMap :=
                   (proxyCfgMap this)(page \<mapsto> (optsArg opts')(''proxy'' \<mapsto> proxyUrl'))\<rparr>;
         s2 = (if page \<notin> reqHdlRegSet this1
               then (this1\<lparr>reqHdlRegSet := insert page (reqHdlRegSet this1)\<rparr>,
                     h\<lparr>requestListeners :=
                         (requestListeners h)
                           (page := requestListeners h page @ [OnRequestBound page])\<rparr>)
               else (this1, h))
     in (fst s2,
         (snd s2)\<lparr>requestInterception := (requestInterception (snd s2))(page := True)\<rparr>))"

text \<open>
  \<^verbatim>\<open>onPageCreated(page)\<close>, lines 163 to 182: installs \<^verbatim>\<open>page.useProxy\<close> and, when
  the global proxy URL is truthy, calls it with no arguments.
\<close>

definition onPageCreated :: "plugin \<times> host \<Rightarrow> page \<Rightarrow> plugin \<times> host" where
  "onPageCreated s page =
     (if truthy (proxyUrl (fst s)) then useProxy s page JUndefined None else s)"

text \<open>A caller invoking \<^verbatim>\<open>page.useProxy\<close> several times in a row, one argument pair per call.\<close>

definition useProxyCalls ::
  "plugin \<times> host \<Rightarrow> page \<Rightarrow> (jsval \<times> obj option) list \<Rightarrow> plugin \<times> host" where
  "useProxyCalls s page calls = foldl (\<lambda>s' c. useProxy s' page (fst c) (snd c)) s calls"

text \<open>
  What the host and the caller can do to the plugin over time: the host announces a
  new page (\<^verbatim>\<open>onPageCreated\<close>), the caller invokes some page's \<^verbatim>\<open>useProxy\<close>.
  \<open>history\<close> runs such calls in order.
\<close>

datatype api_call = PageCreated page | UseProxy page jsval "obj option"

fun api :: "plugin \<times> host \<Rightarrow> api_call \<Rightarrow> plugin \<times> host" where
  "api s (PageCreated p) = onPageCreated s p"
| "api s (UseProxy p u o') = useProxy s p u o'"

definition history :: "plugin \<times> host \<Rightarrow> api_call list \<Rightarrow> plugin \<times> host" where
  "history s cs = foldl api s cs"

text \<open>
  The invariant behind the single handler: a page has the one bound handler when it
  is in \<^verbatim>\<open>reqHdlRegSet\<close> and no handler otherwise.
\<close>

definition handler_inv :: "plugin \<times> host \<Rightarrow> bool" where
  "handler_inv s =
     (requestListeners (snd s) =
        (\<lambda>p. if p \<in> reqHdlRegSet (fst s) then [OnRequestBound p] else []))"

section \<open>Concrete inputs\<close>

text \<open>A global scope that happens to bind the two identifiers of the debug call.\<close>

definition genv_bound :: obj where
  "genv_bound = [''type'' \<mapsto> JUndefined, ''shouldBlock'' \<mapsto> JUndefined]"

definition host0 :: host where
  "host0 = \<lparr> requestListeners = (\<lambda>p. []), requestInterception = (\<lambda>p. False) \<rparr>"

definition gpr_ok :: "request \<Rightarrow> jsval \<Rightarrow> js_error + jsval" where
  "gpr_ok r u = Inr (JStr ''hello'')"

definition gpr_refused :: "request \<Rightarrow> jsval \<Rightarrow> js_error + jsval" where
  "gpr_refused r u = Inl (Rejected ''ECONNREFUSED'')"

text \<open>Requests: a navigation, an image fetch, one that another handler has resolved, and
  one from a host without the cooperative-mode methods.\<close>

definition req_nav :: request where
  "req_nav = \<lparr> url = ''http://example.com/'', isInterceptResolutionHandled = Some False,
               isNavigationRequest = True, continueRequestOverrides = Some (JObj Map.empty) \<rparr>"

definition req_image :: request where
  "req_image = \<lparr> url = ''http://example.com/logo.png'',
                 isInterceptResolutionHandled = Some False,
                 isNavigationRequest = False, continueRequestOverrides = Some (JObj Map.empty) \<rparr>"

definition req_handled :: request where
  "req_handled = \<lparr> url = ''http://example.com/'', isInterceptResolutionHandled = Some True,
                   isNavigationRequest = True, continueRequestOverrides = Some (JObj Map.empty) \<rparr>"

definition req_legacy :: request where
  "req_legacy = \<lparr> url = ''http://example.com/'', isInterceptResolutionHandled = None,
                  isNavigationRequest = True, continueRequestOverrides = None \<rparr>"

definition req_image_handled :: request where
  "req_image_handled = \<lparr> url = ''http://example.com/logo.png'',
                         isInterceptResolutionHandled = Some True,
                         isNavigationRequest = False,
                         continueRequestOverrides = Some (JObj Map.empty) \<rparr>"

text \<open>Plugins: without and with a global proxy, and with global option values.\<close>

definition plugin_none :: plugin where
  "plugin_none = PuppeteerPageProxyPlugin JUndefined None"

definition plugin_global :: plugin where
  "plugin_global = PuppeteerPageProxyPlugin (JStr ''http://global.proxy:3128'') None"

definition plugin_global_opts :: plugin where
  "plugin_global_opts =
     PuppeteerPageProxyPlugin (JStr ''http://global.proxy:3128'')
       (Some [''onlyNavigation'' \<mapsto> JBool True, ''interceptResolutionPriority'' \<mapsto> JNum 5])"

text \<open>States of page 0: \<^verbatim>\<open>page.useProxy('http://127.0.0.1:8080')\<close>;
  \<^verbatim>\<open>page.useProxy()\<close> with no proxy at any level; a page created under a global proxy
  and then opted out with \<^verbatim>\<open>page.useProxy(null)\<close>; page-level
  \<^verbatim>\<open>{onlyNavigation: false, interceptResolutionPriority: 0}\<close> over global
  \<^verbatim>\<open>{onlyNavigation: true, interceptResolutionPriority: 5}\<close>; page-level
  \<^verbatim>\<open>{onlyNavigation: true}\<close>; and a proxy URL without a scheme.\<close>

definition state_page_proxy :: "plugin \<times> host" where
  "state_page_proxy = useProxy (plugin_none, host0) 0 (JStr ''http://127.0.0.1:8080'') None"

definition state_unset :: "plugin \<times> host" where
  "state_unset = useProxy (plugin_none, host0) 0 JUndefined None"

definition state_optout :: "plugin \<times> host" where
  "state_optout = useProxy (onPageCreated (plugin_global, host0) 0) 0 JNull None"

definition state_page_falsy :: "plugin \<times> host" where
  "state_page_falsy =
     useProxy (plugin_global_opts, host0) 0 (JStr ''http://page.proxy:8080'')
       (Some [''onlyNavigation'' \<mapsto> JBool False, ''interceptResolutionPriority'' \<mapsto> JNum 0])"

definition state_only_navigation :: "plugin \<times> host" where
  "state_only_navigation =
     useProxy (plugin_none, host0) 0 (JStr ''http://127.0.0.1:8080'')
       (Some [''onlyNavigation'' \<mapsto> JBool True])"

definition state_no_scheme :: "plugin \<times> host" where
  "state_no_scheme = useProxy (plugin_none, host0) 0 (JStr ''127.0.0.1:8080'') None"

section \<open>Evaluation lemmas\<close>

lemmas js_defs = js_or_def getProp_def optsArg_def proxyUrl_def onlyNavigation_def
  interceptResolutionPriority_def defaults_def PuppeteerPageProxyPlugin_def
  merge_def isValidKey_def

lemmas input_defs = genv_bound_def host0_def gpr_ok_def gpr_refused_def req_nav_def
  req_image_def req_handled_def req_legacy_def req_image_handled_def plugin_none_def plugin_global_def
  plugin_global_opts_def

lemmas state_defs = state_page_proxy_def state_unset_def state_optout_def
  state_page_falsy_def state_only_navigation_def state_no_scheme_def useProxy_def
  onPageCreated_def

section \<open>Facts about the constructor and \<open>useProxy\<close>\<close>

text \<open>A skipped key of the option object does not reach the stored options.\<close>

lemma merge_skips_prototype:
  "opts (PuppeteerPageProxyPlugin (JObj [''prototype'' \<mapsto> JNum 1]) None) ''prototype'' = None"
  by (simp add: PuppeteerPageProxyPlugin_def merge_def isValidKey_def defaults_def)

text \<open>A first argument that is neither a string nor an object leaves every setting unset.\<close>

lemma constructor_non_string_scalar:
  "proxyUrl (PuppeteerPageProxyPlugin (JNum 42) o') = JUndefined"
  "proxyUrl (PuppeteerPageProxyPlugin JNull o') = JUndefined"
  by (simp_all add: PuppeteerPageProxyPlugin_def proxyUrl_def getProp_def merge_def
        isValidKey_def defaults_def)

lemma useProxy_cfg:
  "proxyCfgMap (fst (useProxy s page u o')) page = Some ((optsArg o')(''proxy'' \<mapsto> u))"
  by (simp add: useProxy_def Let_def)

lemma useProxy_registered: "page \<in> reqHdlRegSet (fst (useProxy s page u o'))"
  by (simp add: useProxy_def Let_def)

lemma useProxy_listeners:
  "requestListeners (snd (useProxy s page u o')) page =
     requestListeners (snd s) page @
       (if page \<in> reqHdlRegSet (fst s) then [] else [OnRequestBound page])"
  by (simp add: useProxy_def Let_def)

lemma useProxyCalls_Nil: "useProxyCalls s page [] = s"
  by (simp add: useProxyCalls_def)

lemma useProxyCalls_Cons:
  "useProxyCalls s page (c # cs) = useProxyCalls (useProxy s page (fst c) (snd c)) page cs"
  by (simp add: useProxyCalls_def)

lemma useProxyCalls_snoc:
  "useProxyCalls s page (cs @ [c]) = useProxy (useProxyCalls s page cs) page (fst c) (snd c)"
  by (simp add: useProxyCalls_def)

lemma useProxyCalls_registered:
  "page \<in> reqHdlRegSet (fst s) \<Longrightarrow>
     requestListeners (snd (useProxyCalls s page calls)) page = requestListeners (snd s) page"
proof (induction calls arbitrary: s)
  case Nil
  show ?case by (simp add: useProxyCalls_Nil)
next
  case (Cons c cs)
  have reg: "page \<in> reqHdlRegSet (fst (useProxy s page (fst c) (snd c)))"
    by (rule useProxy_registered)
  have "requestListeners (snd (useProxyCalls s page (c # cs))) page =
        requestListeners (snd (useProxy s page (fst c) (snd c))) page"
    using Cons.IH [OF reg] by (simp add: useProxyCalls_Cons)
  also have "\<dots> = requestListeners (snd s) page"
    using Cons.prems by (simp add: useProxy_listeners)
  finally show ?case .
qed

lemma useProxyCalls_listeners:
  assumes "calls \<noteq> []"
  shows "requestListeners (snd (useProxyCalls s page calls)) page =
           requestListeners (snd s) page @
             (if page \<in> reqHdlRegSet (fst s) then [] else [OnRequestBound page])"
proof -
  from assms obtain c cs where calls: "calls = c # cs"
    by (cases calls) auto
  have "requestListeners (snd (useProxyCalls s page calls)) page =
        requestListeners (snd (useProxy s page (fst c) (snd c))) page"
    unfolding calls useProxyCalls_Cons
    by (rule useProxyCalls_registered) (rule useProxy_registered)
  then show ?thesis by (simp add: useProxy_listeners)
qed

lemma useProxyCalls_cfg:
  assumes "calls \<noteq> []"
  shows "proxyCfgMap (fst (useProxyCalls s page calls)) page =
           Some ((optsArg (snd (last calls)))(''proxy'' \<mapsto> fst (last calls)))"
proof -
  from assms obtain cs c where calls: "calls = cs @ [c]"
    by (cases calls rule: rev_cases) auto
  show ?thesis unfolding calls useProxyCalls_snoc by (simp add: useProxy_cfg)
qed

lemma handler_inv_useProxy:
  assumes "handler_inv s"
  shows "handler_inv (useProxy s page u o')"
proof -
  from assms have l: "\<And>p. requestListeners (snd s) p =
      (if p \<in> reqHdlRegSet (fst s) then [OnRequestBound p] else [])"
    by (simp add: handler_inv_def)
  show ?thesis
    unfolding handler_inv_def
  proof (rule ext)
    fix p
    show "requestListeners (snd (useProxy s page u o')) p =
            (if p \<in> reqHdlRegSet (fst (useProxy s page u o')) then [OnRequestBound p] else [])"
      using l [of p] l [of page] by (simp add: useProxy_def Let_def)
  qed
qed

lemma handler_inv_api: "handler_inv s \<Longrightarrow> handler_inv (api s c)"
  by (cases c) (simp_all add: onPageCreated_def handler_inv_useProxy)

lemma handler_inv_initial: "handler_inv (PuppeteerPageProxyPlugin a b, host0)"
  by (simp add: handler_inv_def PuppeteerPageProxyPlugin_def host0_def)

lemma handler_inv_history: "handler_inv s \<Longrightarrow> handler_inv (history s cs)"
  unfolding history_def
  by (induction cs arbitrary: s) (simp_all add: handler_inv_api)

section \<open>Claims\<close>

text \<open>
  C1. The claim: every request delivered to \<^verbatim>\<open>onRequest\<close> gets exactly one terminal
  action, and no exception path leaves without one. In a global scope that binds
  neither \<^verbatim>\<open>type\<close> nor \<^verbatim>\<open>shouldBlock\<close> (the scope of a Node.js module), the
  debug call at lines 109 to 113 throws a ReferenceError for every request: the
  promise is rejected and no terminal action has been issued.
\<close>

theorem onRequest_unbound_identifier_throws:
  "onRequest Map.empty gpr this page request = ([], Threw (ReferenceError ''type''))
   \<and> terminal_actions (fst (onRequest Map.empty gpr this page request)) = []"
  by (simp add: onRequest_def terminal_actions_def)

text \<open>
  C2, as the spec has it: a request object without \<^verbatim>\<open>isInterceptResolutionHandled\<close>
  counts as not yet handled and is decided. Counterexample: the request of a host
  without the method, on a page with a proxy set, gets no action at all, whether or
  not the global scope binds the identifiers of the debug call.
\<close>

theorem absent_capability_counterexample:
  "isInterceptResolutionHandled req_legacy = None
   \<and> onRequest genv_bound gpr_ok (fst state_page_proxy) 0 req_legacy = ([], Returned)
   \<and> fst (onRequest Map.empty gpr_ok (fst state_page_proxy) 0 req_legacy) = []"
  by (simp add: onRequest_def state_defs js_defs input_defs Let_def)

text \<open>
  C2, amended: the ternary at lines 105 to 107 defaults to \<^verbatim>\<open>true\<close>. A request
  whose object lacks the method is treated exactly like one that reports itself
  handled: no action is issued and the dispatcher is not called. Only a request whose
  method is present and returns false is decided, and then (with the debug call passed
  and the page configured) it gets exactly one terminal action.
\<close>

theorem absent_capability_treated_as_handled:
  "(isInterceptResolutionHandled request \<noteq> Some False \<longrightarrow>
      fst (onRequest genv gpr this page request) = [])
   \<and> (isInterceptResolutionHandled request = None \<longrightarrow>
      onRequest genv gpr this page request =
      onRequest genv gpr this page (request\<lparr>isInterceptResolutionHandled := Some True\<rparr>))
   \<and> (isInterceptResolutionHandled request = Some False \<and> genv ''type'' \<noteq> None \<and>
      genv ''shouldBlock'' \<noteq> None \<and> proxyCfgMap this page \<noteq> None \<longrightarrow>
      length (terminal_actions (fst (onRequest genv gpr this page request))) = 1
      \<and> snd (onRequest genv gpr this page request) = Returned)"
proof (intro conjI impI)
  assume "isInterceptResolutionHandled request \<noteq> Some False"
  then show "fst (onRequest genv gpr this page request) = []"
    by (cases "isInterceptResolutionHandled request")
       (simp_all add: onRequest_def split: option.split)
next
  assume "isInterceptResolutionHandled request = None"
  then show "onRequest genv gpr this page request =
      onRequest genv gpr this page (request\<lparr>isInterceptResolutionHandled := Some True\<rparr>)"
    by (simp add: onRequest_def)
next
  assume h: "isInterceptResolutionHandled request = Some False \<and> genv ''type'' \<noteq> None \<and>
      genv ''shouldBlock'' \<noteq> None \<and> proxyCfgMap this page \<noteq> None"
  then obtain t b cfg where "genv ''type'' = Some t" "genv ''shouldBlock'' = Some b"
    "proxyCfgMap this page = Some cfg" by auto
  with h show "length (terminal_actions (fst (onRequest genv gpr this page request))) = 1"
    by (simp add: onRequest_def Let_def terminal_actions_def split: sum.split)
  from h \<open>genv ''type'' = Some t\<close> \<open>genv ''shouldBlock'' = Some b\<close>
    \<open>proxyCfgMap this page = Some cfg\<close>
  show "snd (onRequest genv gpr this page request) = Returned"
    by (simp add: onRequest_def Let_def split: sum.split)
qed

theorem absent_capability_treated_as_handled_witness:
  "isInterceptResolutionHandled req_legacy = None
   \<and> fst (onRequest genv_bound gpr_ok (fst state_page_proxy) 0 req_legacy) = []
   \<and> isInterceptResolutionHandled req_nav = Some False
   \<and> length (terminal_actions
               (fst (onRequest genv_bound gpr_ok (fst state_page_proxy) 0 req_nav))) = 1"
proof -
  have a: "isInterceptResolutionHandled req_legacy = None"
    by (simp add: req_legacy_def)
  have b: "isInterceptResolutionHandled req_nav = Some False \<and> genv_bound ''type'' \<noteq> None \<and>
           genv_bound ''shouldBlock'' \<noteq> None \<and> proxyCfgMap (fst state_page_proxy) 0 \<noteq> None"
    by (simp add: req_nav_def genv_bound_def state_page_proxy_def useProxy_cfg)
  from a have a': "isInterceptResolutionHandled req_legacy \<noteq> Some False"
    by simp
  from a' absent_capability_treated_as_handled
           [where request = req_legacy and genv = genv_bound and gpr = gpr_ok
              and this = "fst state_page_proxy" and page = 0]
  have 1: "fst (onRequest genv_bound gpr_ok (fst state_page_proxy) 0 req_legacy) = []"
    by blast
  from b absent_capability_treated_as_handled
           [where request = req_nav and genv = genv_bound and gpr = gpr_ok
              and this = "fst state_page_proxy" and page = 0]
  have 2: "length (terminal_actions
             (fst (onRequest genv_bound gpr_ok (fst state_page_proxy) 0 req_nav))) = 1"
    by blast
  from a b 1 2 show ?thesis by simp
qed


text \<open>
  C3, as the spec has it: the page-level \<^verbatim>\<open>onlyNavigation: false\<close> and
  \<^verbatim>\<open>interceptResolutionPriority: 0\<close> win over the global values. Counterexample: page
  0 sets both, the plugin's options are \<^verbatim>\<open>true\<close> and \<^verbatim>\<open>5\<close>, and an image
  request comes in. With the page's values it would be sent through the page's proxy;
  the code continues it, with priority 5.
\<close>

theorem page_level_falsy_counterexample:
  "proxyCfgMap (fst state_page_falsy) 0 =
     Some [''onlyNavigation'' \<mapsto> JBool False, ''interceptResolutionPriority'' \<mapsto> JNum 0,
           ''proxy'' \<mapsto> JStr ''http://page.proxy:8080'']
   \<and> onlyNavigation (fst state_page_falsy) = JBool True
   \<and> interceptResolutionPriority (fst state_page_falsy) = JNum 5
   \<and> onRequest genv_bound gpr_ok (fst state_page_falsy) 0 req_image =
       ([Continue (Some (JObj Map.empty, JNum 5))], Returned)"
  by (simp add: onRequest_def state_defs js_defs input_defs Let_def)

text \<open>
  C3, amended: lines 125 and 126 resolve both settings with \<^verbatim>\<open>||\<close>. For a request
  that is decided, every priority handed to the host is the page's value when that
  value is truthy and the plugin's otherwise, and the navigation filter is on when the
  page's flag is truthy or else the plugin's is: a page-level \<^verbatim>\<open>false\<close> or \<^verbatim>\<open>0\<close>
  falls back to the global value like \<^verbatim>\<open>undefined\<close> does. With both flags falsy a
  page proxy serves every request.
\<close>

theorem settings_resolved_by_truthiness:
  assumes "genv ''type'' = Some t" and "genv ''shouldBlock'' = Some b"
    and "isInterceptResolutionHandled request = Some False"
    and "proxyCfgMap this page = Some cfg"
  shows "(\<forall>e \<in> set (fst (onRequest genv gpr this page request)).
            priority_of e = None \<or>
            priority_of e =
              Some (if truthy (getProp cfg ''interceptResolutionPriority'')
                    then getProp cfg ''interceptResolutionPriority''
                    else interceptResolutionPriority this))
       \<and> ((if truthy (getProp cfg ''onlyNavigation'') then True
             else truthy (onlyNavigation this)) \<and> \<not> isNavigationRequest request \<longrightarrow>
            dispatcher_calls (fst (onRequest genv gpr this page request)) = [])
       \<and> (\<not> truthy (getProp cfg ''onlyNavigation'') \<and> \<not> truthy (onlyNavigation this) \<and>
            truthy (getProp cfg ''proxy'') \<longrightarrow>
            dispatcher_calls (fst (onRequest genv gpr this page request)) =
              [GetProxiedResponse request (getProp cfg ''proxy'')])"
proof (intro conjI)
  show "\<forall>e \<in> set (fst (onRequest genv gpr this page request)).
            priority_of e = None \<or>
            priority_of e =
              Some (if truthy (getProp cfg ''interceptResolutionPriority'')
                    then getProp cfg ''interceptResolutionPriority''
                    else interceptResolutionPriority this)"
    using assms
    by (cases "continueRequestOverrides request")
       (simp_all add: onRequest_def Let_def js_or_def split: sum.split)
next
  show "(if truthy (getProp cfg ''onlyNavigation'') then True
         else truthy (onlyNavigation this)) \<and> \<not> isNavigationRequest request \<longrightarrow>
        dispatcher_calls (fst (onRequest genv gpr this page request)) = []"
    using assms
    by (simp add: onRequest_def Let_def js_or_def dispatcher_calls_def split: sum.split)
next
  show "\<not> truthy (getProp cfg ''onlyNavigation'') \<and> \<not> truthy (onlyNavigation this) \<and>
        truthy (getProp cfg ''proxy'') \<longrightarrow>
        dispatcher_calls (fst (onRequest genv gpr this page request)) =
          [GetProxiedResponse request (getProp cfg ''proxy'')]"
    using assms
    by (simp add: onRequest_def Let_def js_or_def dispatcher_calls_def split: sum.split)
qed

theorem settings_resolved_by_truthiness_witness:
  "getProp [''onlyNavigation'' \<mapsto> JBool False, ''interceptResolutionPriority'' \<mapsto> JNum 0,
            ''proxy'' \<mapsto> JStr ''http://page.proxy:8080''] ''onlyNavigation'' = JBool False
   \<and> onlyNavigation (fst state_page_falsy) = JBool True
   \<and> isNavigationRequest req_image = False
   \<and> dispatcher_calls (fst (onRequest genv_bound gpr_ok (fst state_page_falsy) 0 req_image)) = []"
proof -
  let ?cfg = "[''onlyNavigation'' \<mapsto> JBool False, ''interceptResolutionPriority'' \<mapsto> JNum 0,
               ''proxy'' \<mapsto> JStr ''http://page.proxy:8080'']"
  have g: "genv_bound ''type'' = Some JUndefined" "genv_bound ''shouldBlock'' = Some JUndefined"
    by (simp_all add: genv_bound_def)
  have r: "isInterceptResolutionHandled req_image = Some False"
    "isNavigationRequest req_image = False"
    by (simp_all add: req_image_def)
  have c: "proxyCfgMap (fst state_page_falsy) 0 = Some ?cfg"
    by (simp add: state_page_falsy_def useProxy_cfg optsArg_def)
  have l: "getProp ?cfg ''onlyNavigation'' = JBool False"
    by (simp add: getProp_def)
  have o: "onlyNavigation (fst state_page_falsy) = JBool True"
    by (simp add: state_defs js_defs input_defs Let_def)
  from settings_resolved_by_truthiness [OF g r(1) c, of gpr_ok] l o r(2)
  have "dispatcher_calls (fst (onRequest genv_bound gpr_ok (fst state_page_falsy) 0 req_image)) = []"
    by simp
  with l o r(2) show ?thesis by simp
qed














text \<open>
  C8. However often \<^verbatim>\<open>page.useProxy\<close> is invoked on a page (at least once), the
  page's \<^verbatim>\<open>'request'\<close> listeners grow by exactly one handler when the page was not
  registered before, and by none when it was; the listeners are those left by the
  first of the calls, and the page is registered afterwards. The stored configuration
  is the last call's options with \<^verbatim>\<open>proxy\<close> set to the last call's URL, whatever
  was stored before. After any history of page creations and \<^verbatim>\<open>useProxy\<close> calls on
  any pages since the plugin was constructed, the page then has exactly the one bound
  handler.
\<close>

theorem useProxy_attaches_once_and_replaces:
  assumes "calls \<noteq> []"
  shows "requestListeners (snd (useProxyCalls s page calls)) page =
           requestListeners (snd s) page @
             (if page \<in> reqHdlRegSet (fst s) then [] else [OnRequestBound page])
       \<and> requestListeners (snd (useProxyCalls s page calls)) page =
           requestListeners (snd (useProxyCalls s page (take 1 calls))) page
       \<and> page \<in> reqHdlRegSet (fst (useProxyCalls s page calls))
       \<and> proxyCfgMap (fst (useProxyCalls s page calls)) page =
           Some ((optsArg (snd (last calls)))(''proxy'' \<mapsto> fst (last calls)))
       \<and> requestListeners
           (snd (useProxyCalls (history (PuppeteerPageProxyPlugin a b, host0) before)
                   page calls)) page = [OnRequestBound page]"
proof (intro conjI)
  let ?s = "history (PuppeteerPageProxyPlugin a b, host0) before"
  have "handler_inv ?s"
    by (rule handler_inv_history) (rule handler_inv_initial)
  then have "requestListeners (snd ?s) page =
      (if page \<in> reqHdlRegSet (fst ?s) then [OnRequestBound page] else [])"
    by (simp add: handler_inv_def)
  moreover have "requestListeners (snd (useProxyCalls ?s page calls)) page =
           requestListeners (snd ?s) page @
             (if page \<in> reqHdlRegSet (fst ?s) then [] else [OnRequestBound page])"
    using assms by (rule useProxyCalls_listeners)
  ultimately show "requestListeners (snd (useProxyCalls ?s page calls)) page =
      [OnRequestBound page]"
    by simp
  show l: "requestListeners (snd (useProxyCalls s page calls)) page =
           requestListeners (snd s) page @
             (if page \<in> reqHdlRegSet (fst s) then [] else [OnRequestBound page])"
    using assms by (rule useProxyCalls_listeners)
  from assms have "take 1 calls \<noteq> []"
    by (cases calls) simp_all
  then have "requestListeners (snd (useProxyCalls s page (take 1 calls))) page =
           requestListeners (snd s) page @
             (if page \<in> reqHdlRegSet (fst s) then [] else [OnRequestBound page])"
    by (rule useProxyCalls_listeners)
  with l show "requestListeners (snd (useProxyCalls s page calls)) page =
           requestListeners (snd (useProxyCalls s page (take 1 calls))) page"
    by simp
  from assms obtain cs c where "calls = cs @ [c]"
    by (cases calls rule: rev_cases) auto
  then show "page \<in> reqHdlRegSet (fst (useProxyCalls s page calls))"
    by (simp add: useProxyCalls_snoc useProxy_registered)
  show "proxyCfgMap (fst (useProxyCalls s page calls)) page =
           Some ((optsArg (snd (last calls)))(''proxy'' \<mapsto> fst (last calls)))"
    using assms by (rule useProxyCalls_cfg)
qed

theorem useProxy_attaches_once_and_replaces_witness:
  "requestListeners
     (snd (useProxyCalls (plugin_none, host0) 0
        [(JStr ''http://a:1'', Some [''onlyNavigation'' \<mapsto> JBool True]),
         (JStr ''http://b:2'', None)])) 0 = [OnRequestBound 0]
   \<and> proxyCfgMap
     (fst (useProxyCalls (plugin_none, host0) 0
        [(JStr ''http://a:1'', Some [''onlyNavigation'' \<mapsto> JBool True]),
         (JStr ''http://b:2'', None)])) 0 = Some [''proxy'' \<mapsto> JStr ''http://b:2'']"
proof -
  let ?calls = "[(JStr ''http://a:1'', Some [''onlyNavigation'' \<mapsto> JBool True]),
                 (JStr ''http://b:2'', None)]"
  have n: "?calls \<noteq> []" by simp
  have f: "0 \<notin> reqHdlRegSet (fst (plugin_none, host0))"
    "requestListeners (snd (plugin_none, host0)) 0 = []"
    by (simp_all add: plugin_none_def PuppeteerPageProxyPlugin_def host0_def)
  from useProxy_attaches_once_and_replaces [OF n, of "(plugin_none, host0)" 0] f
  show ?thesis by (simp add: optsArg_def)
qed

text \<open>
  C9, as the spec has it: a proxy URL without a supported scheme is rejected when it is
  configured. Counterexample: \<^verbatim>\<open>page.useProxy('127.0.0.1:8080')\<close> is stored as it
  is, and the next navigation hands that string to the dispatcher.
\<close>

theorem malformed_proxyUrl_counterexample:
  "proxyCfgMap (fst state_no_scheme) 0 = Some [''proxy'' \<mapsto> JStr ''127.0.0.1:8080'']
   \<and> onRequest genv_bound gpr_ok (fst state_no_scheme) 0 req_nav =
       ([GetProxiedResponse req_nav (JStr ''127.0.0.1:8080''),
         Respond (JStr ''hello'') JUndefined], Returned)
   \<and> proxyUrl (PuppeteerPageProxyPlugin (JStr ''127.0.0.1:8080'') None) =
       JStr ''127.0.0.1:8080''"
  by (simp add: onRequest_def state_defs js_defs input_defs Let_def)

text \<open>
  C9, amended: neither \<^verbatim>\<open>useProxy\<close> nor the constructor looks at the proxy URL.
  \<^verbatim>\<open>useProxy\<close> stores any value as the page's \<^verbatim>\<open>proxy\<close>, the constructor stores
  any string as the global \<^verbatim>\<open>proxyUrl\<close>, and neither has an error result. A truthy
  page value reaches the dispatcher unchanged with the first request that is decided
  and passes the navigation filter.
\<close>

theorem proxyUrl_stored_unvalidated:
  "proxyCfgMap (fst (useProxy s page u o')) page = Some ((optsArg o')(''proxy'' \<mapsto> u))
   \<and> proxyUrl (PuppeteerPageProxyPlugin (JStr p) o') = JStr p
   \<and> (genv ''type'' \<noteq> None \<and> genv ''shouldBlock'' \<noteq> None \<and>
      isInterceptResolutionHandled request = Some False \<and> truthy u \<and>
      isNavigationRequest request \<longrightarrow>
      dispatcher_calls (fst (onRequest genv gpr (fst (useProxy s page u o')) page request)) =
        [GetProxiedResponse request u])"
proof (intro conjI impI)
  show c: "proxyCfgMap (fst (useProxy s page u o')) page =
             Some ((optsArg o')(''proxy'' \<mapsto> u))"
    by (rule useProxy_cfg)
  show "proxyUrl (PuppeteerPageProxyPlugin (JStr p) o') = JStr p"
    by (simp add: proxyUrl_def PuppeteerPageProxyPlugin_def getProp_def merge_def
          isValidKey_def)
  assume "genv ''type'' \<noteq> None \<and> genv ''shouldBlock'' \<noteq> None \<and>
      isInterceptResolutionHandled request = Some False \<and> truthy u \<and>
      isNavigationRequest request"
  then obtain t b where "genv ''type'' = Some t" "genv ''shouldBlock'' = Some b"
    "isInterceptResolutionHandled request = Some False" "truthy u"
    "isNavigationRequest request"
    by auto
  with c show
    "dispatcher_calls (fst (onRequest genv gpr (fst (useProxy s page u o')) page request)) =
        [GetProxiedResponse request u]"
    by (simp add: onRequest_def Let_def js_or_def getProp_def dispatcher_calls_def
             split: sum.split)
qed

theorem proxyUrl_stored_unvalidated_witness:
  "proxyCfgMap (fst (useProxy (plugin_none, host0) 0 (JStr ''127.0.0.1:8080'') None)) 0 =
     Some [''proxy'' \<mapsto> JStr ''127.0.0.1:8080'']
   \<and> dispatcher_calls
       (fst (onRequest genv_bound gpr_ok
               (fst (useProxy (plugin_none, host0) 0 (JStr ''127.0.0.1:8080'') None))
               0 req_nav)) =
     [GetProxiedResponse req_nav (JStr ''127.0.0.1:8080'')]"
proof -
  have g: "genv_bound ''type'' \<noteq> None \<and> genv_bound ''shouldBlock'' \<noteq> None \<and>
      isInterceptResolutionHandled req_nav = Some False \<and>
      truthy (JStr ''127.0.0.1:8080'') \<and> isNavigationRequest req_nav"
    by (simp add: genv_bound_def req_nav_def)
  note w = proxyUrl_stored_unvalidated
             [of "(plugin_none, host0)" 0 "JStr ''127.0.0.1:8080''" None _ genv_bound
                 req_nav gpr_ok]
  from w have 1:
    "proxyCfgMap (fst (useProxy (plugin_none, host0) 0 (JStr ''127.0.0.1:8080'') None)) 0 =
       Some ((optsArg None)(''proxy'' \<mapsto> JStr ''127.0.0.1:8080''))"
    by (rule conjunct1)
  from w g have 2: "dispatcher_calls
       (fst (onRequest genv_bound gpr_ok
               (fst (useProxy (plugin_none, host0) 0 (JStr ''127.0.0.1:8080'') None))
               0 req_nav)) =
     [GetProxiedResponse req_nav (JStr ''127.0.0.1:8080'')]"
    by blast
  from 1 2 show ?thesis by (simp add: optsArg_def)
qed

text \<open>
  C10. The constructor's two call forms. With an object as the first argument the
  second argument plays no part, and the three global settings (\<^verbatim>\<open>proxyUrl\<close>,
  \<^verbatim>\<open>onlyNavigation\<close>, \<^verbatim>\<open>interceptResolutionPriority\<close>) are the object's
  properties of those names. With a string first and options second (an object, or
  omitted: the empty object), the result is the same plugin as for the single object
  that carries the same options and the string as \<^verbatim>\<open>proxyUrl\<close>; the global proxy
  URL is the string and the other two settings are those of the options.
\<close>

theorem constructor_call_forms:
  "PuppeteerPageProxyPlugin (JObj m) o1 = PuppeteerPageProxyPlugin (JObj m) o2
   \<and> proxyUrl (PuppeteerPageProxyPlugin (JObj m) o1) = getProp m ''proxyUrl''
   \<and> onlyNavigation (PuppeteerPageProxyPlugin (JObj m) o1) = getProp m ''onlyNavigation''
   \<and> interceptResolutionPriority (PuppeteerPageProxyPlugin (JObj m) o1) =
       getProp m ''interceptResolutionPriority''
   \<and> PuppeteerPageProxyPlugin (JStr p) o' =
       PuppeteerPageProxyPlugin (JObj ((optsArg o')(''proxyUrl'' \<mapsto> JStr p))) o2
   \<and> proxyUrl (PuppeteerPageProxyPlugin (JStr p) o') = JStr p
   \<and> onlyNavigation (PuppeteerPageProxyPlugin (JStr p) o') =
       getProp (optsArg o') ''onlyNavigation''
   \<and> interceptResolutionPriority (PuppeteerPageProxyPlugin (JStr p) o') =
       getProp (optsArg o') ''interceptResolutionPriority''"
  by (simp add: PuppeteerPageProxyPlugin_def proxyUrl_def onlyNavigation_def
        interceptResolutionPriority_def getProp_def defaults_def merge_def isValidKey_def
      split: option.split)

end
